theory Spec2Isabelle
  imports Complex_Main "HOL-Library.Word"
begin

section \<open>JavaScript values\<close>

text \<open>
  A JavaScript string is a sequence of UTF-16 code units: \<open>length\<close>, \<open>includes\<close> and
  \<open>substring\<close> count and compare code units. \<open>js\<close> writes a literal of the source whose
  characters are below U+0100, where the code unit is the character's code.
\<close>

type_synonym code_unit = "16 word"
type_synonym jsstring = "code_unit list"

definition js :: "string \<Rightarrow> jsstring" where
  "js s = map (\<lambda>c. of_nat (of_char c)) s"

text \<open>
  The values the classifier handles without knowing their type (\<open>unknown\<close>, \<open>any\<close>):
  \<open>undefined\<close> and the values of JSON. An object is the list of its own enumerable
  properties in the order \<open>Object.keys\<close> reports them. A number is kept exact.
\<close>

datatype jsvalue =
    JUndefined
  | JNull
  | JBool bool
  | JNum rat
  | JStr jsstring
  | JArr "jsvalue list"
  | JObj "(jsstring \<times> jsvalue) list"

text \<open>\<open>ToBoolean\<close>, which \<open>if (v)\<close> applies to \<open>v\<close>.\<close>

fun truthy :: "jsvalue \<Rightarrow> bool" where
  "truthy JUndefined = False"
| "truthy JNull = False"
| "truthy (JBool b) = b"
| "truthy (JNum x) = (x \<noteq> 0)"
| "truthy (JStr s) = (s \<noteq> [])"
| "truthy (JArr xs) = True"
| "truthy (JObj ps) = True"

text \<open>\<open>String.prototype.includes\<close>: \<open>str_includes s t\<close> is \<open>s.includes(t)\<close>.\<close>

fun starts_with :: "jsstring \<Rightarrow> jsstring \<Rightarrow> bool" where
  "starts_with s [] = True"
| "starts_with [] (d # t) = False"
| "starts_with (c # s) (d # t) = (c = d \<and> starts_with s t)"

fun str_includes :: "jsstring \<Rightarrow> jsstring \<Rightarrow> bool" where
  "str_includes [] t = (t = [])"
| "str_includes (c # s) t = (starts_with (c # s) t \<or> str_includes s t)"

text \<open>The errors the code can raise.\<close>

datatype error = TypeError | SyntaxError

section \<open>\<open>JSON.parse\<close>\<close>

text \<open>
  \<open>JSON.parse\<close> is a built-in of the language. The classifier below takes it as a
  parameter \<open>parse\<close>, so that what is proved of the classifier holds for whatever the
  built-in answers. \<open>JSON_parse\<close> is the grammar of ECMA-404 as a recursive-descent
  parser, for running the classifier on concrete texts: white space is space, tab,
  line feed and carriage return; a repeated key keeps its first position and its last
  value; keys that are array indices precede the others, in ascending order. Numbers
  are exact rationals here, where the built-in rounds to a double.
\<close>

definition is_ws :: "code_unit \<Rightarrow> bool" where
  "is_ws c = (c = 0x20 \<or> c = 0x09 \<or> c = 0x0A \<or> c = 0x0D)"

definition is_digit :: "code_unit \<Rightarrow> bool" where
  "is_digit c = (0x30 \<le> c \<and> c \<le> 0x39)"

definition skip_ws :: "jsstring \<Rightarrow> jsstring" where
  "skip_ws s = dropWhile is_ws s"

definition digits_value :: "jsstring \<Rightarrow> nat" where
  "digits_value ds = foldl (\<lambda>n c. 10 * n + (unat c - 48)) 0 ds"

definition hex_value :: "code_unit \<Rightarrow> nat option" where
  "hex_value c =
     (if 0x30 \<le> c \<and> c \<le> 0x39 then Some (unat c - 48)
      else if 0x41 \<le> c \<and> c \<le> 0x46 then Some (unat c - 55)
      else if 0x61 \<le> c \<and> c \<le> 0x66 then Some (unat c - 87)
      else None)"

definition hex4 :: "code_unit \<Rightarrow> code_unit \<Rightarrow> code_unit \<Rightarrow> code_unit \<Rightarrow> code_unit option" where
  "hex4 a b c d =
     (case (hex_value a, hex_value b, hex_value c, hex_value d) of
        (Some h1, Some h2, Some h3, Some h4) \<Rightarrow> Some (of_nat (((h1 * 16 + h2) * 16 + h3) * 16 + h4))
      | _ \<Rightarrow> None)"

definition unescape :: "code_unit \<Rightarrow> code_unit option" where
  "unescape e =
     (if e = 0x22 \<or> e = 0x5C \<or> e = 0x2F then Some e
      else if e = 0x62 then Some 0x08
      else if e = 0x66 then Some 0x0C
      else if e = 0x6E then Some 0x0A
      else if e = 0x72 then Some 0x0D
      else if e = 0x74 then Some 0x09
      else None)"

text \<open>The characters of a string literal after its opening quote, up to the closing one.\<close>

fun parse_chars :: "jsstring \<Rightarrow> jsstring \<Rightarrow> (jsstring \<times> jsstring) option" where
  "parse_chars acc [] = None"
| "parse_chars acc [c] = (if c = 0x22 then Some (rev acc, []) else None)"
| "parse_chars acc (c # e # r) =
     (if c = 0x22 then Some (rev acc, e # r)
      else if c = 0x5C then
        (if e = 0x75 then
           (case r of
              h1 # h2 # h3 # h4 # r' \<Rightarrow>
                (case hex4 h1 h2 h3 h4 of
                   Some u \<Rightarrow> parse_chars (u # acc) r'
                 | None \<Rightarrow> None)
            | _ \<Rightarrow> None)
         else
           (case unescape e of
              Some u \<Rightarrow> parse_chars (u # acc) r
            | None \<Rightarrow> None))
      else if c < 0x20 then None
      else parse_chars (c # acc) (e # r))"

definition parse_number :: "jsstring \<Rightarrow> (rat \<times> jsstring) option" where
  "parse_number s =
     (let neg = (s \<noteq> [] \<and> hd s = 0x2D);
          r0 = (if neg then tl s else s);
          ip = takeWhile is_digit r0;
          r1 = dropWhile is_digit r0;
          has_frac = (r1 \<noteq> [] \<and> hd r1 = 0x2E);
          fp = (if has_frac then takeWhile is_digit (tl r1) else []);
          r2 = (if has_frac then dropWhile is_digit (tl r1) else r1);
          has_exp = (r2 \<noteq> [] \<and> (hd r2 = 0x65 \<or> hd r2 = 0x45));
          r3 = (if has_exp then tl r2 else r2);
          has_sign = (has_exp \<and> r3 \<noteq> [] \<and> (hd r3 = 0x2B \<or> hd r3 = 0x2D));
          eneg = (has_sign \<and> hd r3 = 0x2D);
          r4 = (if has_sign then tl r3 else r3);
          ep = (if has_exp then takeWhile is_digit r4 else []);
          r5 = (if has_exp then dropWhile is_digit r4 else r2);
          m = of_nat (digits_value (ip @ fp)) / 10 ^ length fp;
          x = (if eneg then m / 10 ^ digits_value ep else m * 10 ^ digits_value ep)
      in if ip = [] \<or> (1 < length ip \<and> hd ip = 0x30) \<or> (has_frac \<and> fp = [])
            \<or> (has_exp \<and> ep = [])
         then None
         else Some (if neg then - x else x, r5))"

text \<open>
  The array index a property key denotes, if any: a canonical decimal numeral below
  \<open>2^32 - 1\<close>.
\<close>

definition array_index :: "jsstring \<Rightarrow> nat option" where
  "array_index k =
     (if k \<noteq> [] \<and> list_all is_digit k \<and> (length k = 1 \<or> hd k \<noteq> 0x30)
         \<and> digits_value k < 2 ^ 32 - 1
      then Some (digits_value k) else None)"

definition index_below :: "nat \<Rightarrow> jsstring \<times> jsvalue \<Rightarrow> bool" where
  "index_below i p = (case array_index (fst p) of Some j \<Rightarrow> j < i | None \<Rightarrow> False)"

definition define_property :: "jsstring \<Rightarrow> jsvalue \<Rightarrow> (jsstring \<times> jsvalue) list \<Rightarrow> (jsstring \<times> jsvalue) list" where
  "define_property k v ps =
     (if k \<in> fst ` set ps then map (\<lambda>p. if fst p = k then (k, v) else p) ps
      else case array_index k of
             None \<Rightarrow> ps @ [(k, v)]
           | Some i \<Rightarrow> takeWhile (index_below i) ps @ [(k, v)] @ dropWhile (index_below i) ps)"

text \<open>
  The three mutually recursive productions: a value, the elements of an array after
  its bracket, the members of an object after its brace. The first argument bounds the
  depth of the calls; \<open>JSON_parse\<close> starts with more than the text is long.
\<close>

fun parse_value :: "nat \<Rightarrow> jsstring \<Rightarrow> (jsvalue \<times> jsstring) option"
  and parse_elements :: "nat \<Rightarrow> jsvalue list \<Rightarrow> jsstring \<Rightarrow> (jsvalue \<times> jsstring) option"
  and parse_members :: "nat \<Rightarrow> (jsstring \<times> jsvalue) list \<Rightarrow> jsstring \<Rightarrow> (jsvalue \<times> jsstring) option"
where
  "parse_value 0 s = None"
| "parse_value (Suc n) s =
     (case skip_ws s of
        [] \<Rightarrow> None
      | c # r \<Rightarrow>
          if c = 0x7B then
            (case skip_ws r of
               [] \<Rightarrow> None
             | d # r' \<Rightarrow> if d = 0x7D then Some (JObj [], r') else parse_members n [] r)
          else if c = 0x5B then
            (case skip_ws r of
               [] \<Rightarrow> None
             | d # r' \<Rightarrow> if d = 0x5D then Some (JArr [], r') else parse_elements n [] r)
          else if c = 0x22 then
            (case parse_chars [] r of
               None \<Rightarrow> None
             | Some (str, r') \<Rightarrow> Some (JStr str, r'))
          else if starts_with (c # r) (js ''true'') then Some (JBool True, drop 4 (c # r))
          else if starts_with (c # r) (js ''false'') then Some (JBool False, drop 5 (c # r))
          else if starts_with (c # r) (js ''null'') then Some (JNull, drop 4 (c # r))
          else
            (case parse_number (c # r) of
               None \<Rightarrow> None
             | Some (x, r') \<Rightarrow> Some (JNum x, r')))"
| "parse_elements 0 acc s = None"
| "parse_elements (Suc n) acc s =
     (case parse_value n s of
        None \<Rightarrow> None
      | Some (v, r) \<Rightarrow>
          (case skip_ws r of
             [] \<Rightarrow> None
           | c # r' \<Rightarrow>
               if c = 0x2C then parse_elements n (v # acc) r'
               else if c = 0x5D then Some (JArr (rev (v # acc)), r')
               else None))"
| "parse_members 0 ps s = None"
| "parse_members (Suc n) ps s =
     (case skip_ws s of
        [] \<Rightarrow> None
      | q # r \<Rightarrow>
          if q \<noteq> 0x22 then None
          else
            (case parse_chars [] r of
               None \<Rightarrow> None
             | Some (k, r1) \<Rightarrow>
                 (case skip_ws r1 of
                    [] \<Rightarrow> None
                  | c # r2 \<Rightarrow>
                      if c \<noteq> 0x3A then None
                      else
                        (case parse_value n r2 of
                           None \<Rightarrow> None
                         | Some (v, r3) \<Rightarrow>
                             (case skip_ws r3 of
                                [] \<Rightarrow> None
                              | d # r4 \<Rightarrow>
                                  if d = 0x2C then parse_members n (define_property k v ps) r4
                                  else if d = 0x7D then Some (JObj (define_property k v ps), r4)
                                  else None)))))"

definition JSON_parse :: "jsstring \<Rightarrow> error + jsvalue" where
  "JSON_parse text =
     (case parse_value (Suc (length text)) text of
        None \<Rightarrow> Inl SyntaxError
      | Some (v, r) \<Rightarrow> if skip_ws r = [] then Inr v else Inl SyntaxError)"

section \<open>Messages, arrays and the store\<close>

text \<open>
  The classifier reads five things of a message \<open>m\<close>: \<open>m.constructor?.name\<close>,
  \<open>m._getType?.()\<close>, \<open>m.content\<close>, \<open>m.tool_calls\<close> and \<open>m.name\<close>. An optional field is
  \<open>None\<close> when it is \<open>undefined\<close> or \<open>null\<close>, which \<open>?.\<close> does not tell apart;
  \<open>getType\<close> is what the method returns, \<open>None\<close> when the object has no such method.
  Of a tool call only its name is read. The fields have the types the library
  declares: a \<open>name\<close> or a \<open>constructor.name\<close> that is not a string, and a \<open>_getType\<close>
  that is not a function, on which the callbacks raise a \<open>TypeError\<close>, are not values of
  this type.
\<close>

record tool_call =
  tc_name :: jsstring
  tc_args :: jsvalue

record message =
  constructor_name :: "jsstring option"
  getType :: "jsstring option"
  content :: jsvalue
  tool_calls :: "tool_call list option"
  name :: "jsstring option"

text \<open>
  The parameter is typed \<open>any[]\<close>: an element is a message object, or \<open>null\<close> or
  \<open>undefined\<close>, of which reading a property raises a \<open>TypeError\<close>.
\<close>

datatype element = Nullish | Msg message

text \<open>
  Arrays are mutable and passed by reference: the store maps an address to the
  elements of the array there, \<open>fresh\<close> is the next unused address, and \<open>console\<close> is
  what \<open>console.log\<close> has written, one entry per call. The code assigns to no
  property of a message, so an array holds its messages by value.
\<close>

record store =
  arrays :: "nat \<Rightarrow> element list"
  fresh :: nat
  console :: "jsstring list"

definition alloc :: "element list \<Rightarrow> store \<Rightarrow> nat \<times> store" where
  "alloc xs s = (fresh s, s\<lparr>arrays := (arrays s)(fresh s := xs), fresh := Suc (fresh s)\<rparr>)"

text \<open>\<open>xs.slice(start)\<close>: a new array; a negative \<open>start\<close> counts from the end.\<close>

definition slice_list :: "int \<Rightarrow> 'a list \<Rightarrow> 'a list" where
  "slice_list start xs =
     (let n = int (length xs);
          k = (if start < 0 then max (n + start) 0 else min start n)
      in drop (nat k) xs)"

definition slice :: "nat \<Rightarrow> int \<Rightarrow> store \<Rightarrow> nat \<times> store" where
  "slice a start s = alloc (slice_list start (arrays s a)) s"

text \<open>\<open>[...xs]\<close>: a new array with the same elements.\<close>

definition spread :: "nat \<Rightarrow> store \<Rightarrow> nat \<times> store" where
  "spread a s = alloc (arrays s a) s"

text \<open>\<open>xs.reverse()\<close> reverses the array in place and returns it.\<close>

definition reverse :: "nat \<Rightarrow> store \<Rightarrow> nat \<times> store" where
  "reverse a s = (a, s\<lparr>arrays := (arrays s)(a := rev (arrays s a))\<rparr>)"

text \<open>
  \<open>xs.find(p)\<close> for a callback \<open>p\<close> that reads properties of its argument: the first
  message that satisfies \<open>p\<close>, \<open>undefined\<close> (\<open>None\<close>) when there is none, and the
  callback's \<open>TypeError\<close> when a \<open>null\<close> or \<open>undefined\<close> element is reached first.
\<close>

fun find_in :: "(message \<Rightarrow> bool) \<Rightarrow> element list \<Rightarrow> error + message option" where
  "find_in p [] = Inr None"
| "find_in p (Nullish # xs) = Inl TypeError"
| "find_in p (Msg m # xs) = (if p m then Inr (Some m) else find_in p xs)"

definition find_msg :: "(message \<Rightarrow> bool) \<Rightarrow> nat \<Rightarrow> store \<Rightarrow> error + message option" where
  "find_msg p a s = find_in p (arrays s a)"

section \<open>The classifier\<close>

datatype StrategyType = TOOL_CALLING | PROVIDER_JSON | PROVIDER_NO_JSON | UNKNOWN

text \<open>
  \<open>parsedJson\<close> is an optional property: \<open>None\<close> when the returned object does not
  have it, \<open>Some JUndefined\<close> when it has it with the value \<open>undefined\<close>.
\<close>

record StrategyAnalysis =
  strategy :: StrategyType
  structuredOutputWorked :: bool
  details :: jsstring
  parsedJson :: "jsvalue option"

text \<open>The three callbacks given to \<open>find\<close>.\<close>

definition carries_tool_calls :: "message \<Rightarrow> bool" where
  \<comment> \<open>\<open>m.tool_calls?.length > 0\<close>\<close>
  "carries_tool_calls m = (case tool_calls m of None \<Rightarrow> False | Some cs \<Rightarrow> 0 < length cs)"

definition names_extraction :: "message \<Rightarrow> bool" where
  \<comment> \<open>\<open>m.name?.includes("extract") || m.name?.includes("MovieRecommendation")\<close>\<close>
  "names_extraction m =
     (case name m of
        None \<Rightarrow> False
      | Some n \<Rightarrow> str_includes n (js ''extract'') \<or> str_includes n (js ''MovieRecommendation''))"

definition is_ai_message :: "message \<Rightarrow> bool" where
  \<comment> \<open>\<open>m.constructor?.name?.includes("AI") || m._getType?.() === "ai"\<close>\<close>
  "is_ai_message m =
     ((case constructor_name m of None \<Rightarrow> False | Some n \<Rightarrow> str_includes n (js ''AI''))
      \<or> getType m = Some (js ''ai''))"

text \<open>\<open>a || d\<close> for a string or \<open>undefined\<close> \<open>a\<close>: the empty string is falsy too.\<close>

definition or_else :: "jsstring option \<Rightarrow> jsstring \<Rightarrow> jsstring" where
  "or_else a d = (case a of None \<Rightarrow> d | Some n \<Rightarrow> if n = [] then d else n)"

definition first_call_name :: "message option \<Rightarrow> jsstring option" where
  \<comment> \<open>\<open>toolCallMessage?.tool_calls?.[0]?.name\<close>\<close>
  "first_call_name mo =
     (case mo of
        None \<Rightarrow> None
      | Some m \<Rightarrow>
          (case tool_calls m of
             None \<Rightarrow> None
           | Some [] \<Rightarrow> None
           | Some (c # cs) \<Rightarrow> Some (tc_name c)))"

definition message_name :: "message option \<Rightarrow> jsstring option" where
  \<comment> \<open>\<open>toolResponseMessage?.name\<close>\<close>
  "message_name mo = (case mo of None \<Rightarrow> None | Some m \<Rightarrow> name m)"

definition analyzeStructuredOutputStrategy ::
  "(jsstring \<Rightarrow> error + jsvalue) \<Rightarrow> nat \<Rightarrow> jsvalue \<Rightarrow> store \<Rightarrow> (error + StrategyAnalysis) \<times> store" where
  "analyzeStructuredOutputStrategy parse messages structuredResponse s0 =
     (let (lastMessages, s1) = slice messages (- 5) s0 in
      case find_msg carries_tool_calls lastMessages s1 of
        Inl e \<Rightarrow> (Inl e, s1)
      | Inr toolCallMessage \<Rightarrow>
      (case find_msg names_extraction lastMessages s1 of
        Inl e \<Rightarrow> (Inl e, s1)
      | Inr toolResponseMessage \<Rightarrow>
      (let hasToolCalls = (toolCallMessage \<noteq> None \<or> toolResponseMessage \<noteq> None);
           (copy, s2) = spread messages s1;
           (reversed, s3) = reverse copy s2
       in case find_msg is_ai_message reversed s3 of
         Inl e \<Rightarrow> (Inl e, s3)
       | Inr lastAiMessage \<Rightarrow>
       (let lastContent = (case lastAiMessage of None \<Rightarrow> JUndefined | Some m \<Rightarrow> content m);
            parsed =
              (case lastContent of
                 JStr text \<Rightarrow> (case parse text of Inl e \<Rightarrow> JUndefined | Inr v \<Rightarrow> v)
               | _ \<Rightarrow> JUndefined)
        in if hasToolCalls then
             (let toolName =
                    or_else (first_call_name toolCallMessage)
                      (or_else (message_name toolResponseMessage) (js ''unknown''))
              in (Inr \<lparr>strategy = TOOL_CALLING,
                       structuredOutputWorked = (structuredResponse \<noteq> JUndefined),
                       details = js ''Tool calling strategy detected (tool: \"'' @ toolName @ js ''\")'',
                       parsedJson = Some parsed\<rparr>, s3))
           else if truthy parsed then
             (Inr \<lparr>strategy = PROVIDER_JSON,
                    structuredOutputWorked = (structuredResponse \<noteq> JUndefined \<or> parsed \<noteq> JUndefined),
                    details = js ''Provider strategy - response is valid JSON'',
                    parsedJson = Some parsed\<rparr>, s3)
           else if (case lastContent of JStr text \<Rightarrow> 0 < length text | _ \<Rightarrow> False) then
             (Inr \<lparr>strategy = PROVIDER_NO_JSON,
                    structuredOutputWorked = False,
                    details = js ''Provider strategy attempted but response is NOT JSON (plain text/markdown)'',
                    parsedJson = None\<rparr>, s3)
           else
             (Inr \<lparr>strategy = UNKNOWN,
                    structuredOutputWorked = (structuredResponse \<noteq> JUndefined),
                    details = js ''Could not determine strategy'',
                    parsedJson = None\<rparr>, s3)))))"

section \<open>The report\<close>

definition console_log :: "jsstring \<Rightarrow> store \<Rightarrow> store" where
  "console_log line s = s\<lparr>console := console s @ [line]\<rparr>"

text \<open>\<open>s.repeat(n)\<close>, \<open>xs.join(sep)\<close> for an array of strings, and a number in a template.\<close>

definition repeat :: "jsstring \<Rightarrow> nat \<Rightarrow> jsstring" where
  "repeat t n = concat (replicate n t)"

fun join :: "jsstring \<Rightarrow> jsstring list \<Rightarrow> jsstring" where
  "join sep [] = []"
| "join sep [x] = x"
| "join sep (x # y # r) = x @ sep @ join sep (y # r)"

fun decimal :: "nat \<Rightarrow> jsstring" where
  "decimal n = (if n < 10 then [of_nat (48 + n)] else decimal (n div 10) @ [of_nat (48 + n mod 10)])"

text \<open>
  \<open>Object.keys(v)\<close>: the keys of an object, the indices of an array or of a string,
  nothing for a number or a boolean, and a \<open>TypeError\<close> for \<open>undefined\<close> and \<open>null\<close>.
\<close>

fun Object_keys :: "jsvalue \<Rightarrow> error + jsstring list" where
  "Object_keys JUndefined = Inl TypeError"
| "Object_keys JNull = Inl TypeError"
| "Object_keys (JBool b) = Inr []"
| "Object_keys (JNum x) = Inr []"
| "Object_keys (JStr t) = Inr (map decimal [0..<length t])"
| "Object_keys (JArr xs) = Inr (map decimal [0..<length xs])"
| "Object_keys (JObj ps) = Inr (map fst ps)"

fun strategy_text :: "StrategyType \<Rightarrow> jsstring" where
  "strategy_text TOOL_CALLING = js ''TOOL_CALLING''"
| "strategy_text PROVIDER_JSON = js ''PROVIDER_JSON''"
| "strategy_text PROVIDER_NO_JSON = js ''PROVIDER_NO_JSON''"
| "strategy_text UNKNOWN = js ''UNKNOWN''"

definition boolean_text :: "bool \<Rightarrow> jsstring" where
  "boolean_text b = (if b then js ''true'' else js ''false'')"

text \<open>The glyphs of the report: U+2500, U+1F4CA (a surrogate pair), U+2705 and U+274C.\<close>

definition rule_glyph :: jsstring where "rule_glyph = [0x2500]"
definition chart_glyph :: jsstring where "chart_glyph = [0xD83D, 0xDCCA]"
definition check_glyph :: jsstring where "check_glyph = [0x2705]"
definition cross_glyph :: jsstring where "cross_glyph = [0x274C]"

definition schema_match_line :: "bool \<Rightarrow> jsstring" where
  \<comment> \<open>\<open>`Schema match: ${hasExpectedKeys ? "YES" : "NO"}`\<close>, with the glyph before the word\<close>
  "schema_match_line hasExpectedKeys =
     js ''Schema match: '' @
       (if hasExpectedKeys then check_glyph @ js '' YES'' else cross_glyph @ js '' NO'')"

text \<open>The block \<open>if (analysis.parsedJson) { ... }\<close> of \<open>logStrategyAnalysis\<close>.\<close>

definition log_schema_match :: "StrategyAnalysis \<Rightarrow> jsstring list \<Rightarrow> store \<Rightarrow> error + store" where
  "log_schema_match analysis schemaKeys s =
     (case parsedJson analysis of
        None \<Rightarrow> Inr s
      | Some v \<Rightarrow>
          if truthy v then
            (case Object_keys v of
               Inl e \<Rightarrow> Inl e
             | Inr jsonKeys \<Rightarrow>
                 (let hasExpectedKeys = list_all (\<lambda>k. k \<in> set jsonKeys) schemaKeys;
                      s1 = console_log ([0x0A] @ js ''Parsed JSON keys: ['' @ join (js '', '') jsonKeys @ js '']'') s;
                      s2 = console_log (js ''Expected schema keys: ['' @ join (js '', '') schemaKeys @ js '']'') s1;
                      s3 = console_log (schema_match_line hasExpectedKeys) s2
                  in Inr s3))
          else Inr s)"

text \<open>The preview of the last assistant message, at the end of \<open>logStrategyAnalysis\<close>.\<close>

definition log_preview :: "nat \<Rightarrow> store \<Rightarrow> error + store" where
  "log_preview messages s =
     (let (copy, s1) = spread messages s;
          (reversed, s2) = reverse copy s1
      in case find_msg is_ai_message reversed s2 of
           Inl e \<Rightarrow> Inl e
         | Inr lastAiMessage \<Rightarrow>
             (case (case lastAiMessage of None \<Rightarrow> JUndefined | Some m \<Rightarrow> content m) of
                JStr text \<Rightarrow>
                  if text \<noteq> [] then
                    (let preview = take 200 text;
                         s3 = console_log ([0x0A] @ js ''Last AI message preview (first 200 chars):'') s2;
                         s4 = console_log
                                (js ''\"'' @ preview @ (if 200 < length text then js ''...'' else [])
                                   @ js ''\"'') s3
                     in Inr s4)
                  else Inr s2
              | _ \<Rightarrow> Inr s2))"

definition logStrategyAnalysis ::
  "(jsstring \<Rightarrow> error + jsvalue) \<Rightarrow> nat \<Rightarrow> jsvalue \<Rightarrow> jsstring list \<Rightarrow> store \<Rightarrow> (error + unit) \<times> store" where
  "logStrategyAnalysis parse messages structuredResponse schemaKeys s0 =
     (case analyzeStructuredOutputStrategy parse messages structuredResponse s0 of
        (Inl e, s1) \<Rightarrow> (Inl e, s1)
      | (Inr analysis, s1) \<Rightarrow>
          (let s2 = console_log ([0x0A] @ repeat rule_glyph 50) s1;
               s3 = console_log (chart_glyph @ js '' STRATEGY ANALYSIS'') s2;
               s4 = console_log (repeat rule_glyph 50) s3;
               s5 = console_log (js ''Strategy Detected: '' @ strategy_text (strategy analysis)) s4;
               s6 = console_log (js ''Details: '' @ details analysis) s5;
               s7 = console_log (js ''structuredResponse defined: ''
                                   @ boolean_text (structuredResponse \<noteq> JUndefined)) s6;
               s8 = (if structuredOutputWorked analysis
                     then console_log (check_glyph @ js '' Structured output WORKED'') s7
                     else console_log (cross_glyph @ js '' Structured output FAILED'') s7)
           in case log_schema_match analysis schemaKeys s8 of
                Inl e \<Rightarrow> (Inl e, s8)
              | Inr s9 \<Rightarrow>
                  (case log_preview messages s9 of
                     Inl e \<Rightarrow> (Inl e, s9)
                   | Inr s10 \<Rightarrow> (Inr (), console_log (repeat rule_glyph 50) s10))))"

section \<open>Reading a trace of messages\<close>

text \<open>
  What the classifier computes along the way, for a trace that holds message objects
  only: the value of its variable \<open>hasToolCalls\<close> (the window \<open>slice(-5)\<close> is the last
  five messages, all of them when there are fewer), the message and the content it
  takes for the most recent assistant turn, and the tool name it puts in \<open>details\<close>.
\<close>

definition hasToolCalls :: "message list \<Rightarrow> bool" where
  "hasToolCalls ms =
     (\<exists>m \<in> set (drop (length ms - 5) ms). carries_tool_calls m \<or> names_extraction m)"

definition lastAiMessage :: "message list \<Rightarrow> message option" where
  "lastAiMessage ms = List.find is_ai_message (rev ms)"

definition lastContent :: "message list \<Rightarrow> jsvalue" where
  "lastContent ms = (case lastAiMessage ms of None \<Rightarrow> JUndefined | Some m \<Rightarrow> content m)"

definition toolName :: "message list \<Rightarrow> jsstring" where
  "toolName ms =
     or_else (first_call_name (List.find carries_tool_calls (drop (length ms - 5) ms)))
       (or_else (message_name (List.find names_extraction (drop (length ms - 5) ms)))
          (js ''unknown''))"

section \<open>Traces to run the code on\<close>

text \<open>
  Messages as the library's classes build them: the class name, the type tag, the
  content, the tool calls of an assistant turn (an empty array when it made none) and
  the name of the tool of a tool result.
\<close>

definition AIMessage :: "jsvalue \<Rightarrow> tool_call list \<Rightarrow> message" where
  "AIMessage c calls =
     \<lparr>constructor_name = Some (js ''AIMessage''), getType = Some (js ''ai''), content = c,
      tool_calls = Some calls, name = None\<rparr>"

definition HumanMessage :: "jsstring \<Rightarrow> message" where
  "HumanMessage text =
     \<lparr>constructor_name = Some (js ''HumanMessage''), getType = Some (js ''human''),
      content = JStr text, tool_calls = None, name = None\<rparr>"

definition ToolMessage :: "jsstring \<Rightarrow> jsstring \<Rightarrow> message" where
  "ToolMessage text tool =
     \<lparr>constructor_name = Some (js ''ToolMessage''), getType = Some (js ''tool''),
      content = JStr text, tool_calls = None, name = Some tool\<rparr>"

definition call :: "jsstring \<Rightarrow> tool_call" where
  "call tool = \<lparr>tc_name = tool, tc_args = JObj []\<rparr>"

text \<open>A store whose only array, at address 0, is the trace.\<close>

definition trace_store :: "element list \<Rightarrow> store" where
  "trace_store xs = \<lparr>arrays = (\<lambda>a. [])(0 := xs), fresh = 1, console = []\<rparr>"

definition text_block :: "jsstring \<Rightarrow> jsvalue" where
  "text_block t = JObj [(js ''type'', JStr (js ''text'')), (js ''text'', JStr t)]"

definition early_tool_call_trace :: "message list" where
  "early_tool_call_trace =
     AIMessage (JStr []) [call (js ''tavily_search'')]
       # ToolMessage (js ''no results'') (js ''tavily_search'')
       # [HumanMessage (js ''Summarize''), HumanMessage (js ''Shorter''),
          HumanMessage (js ''In French''), HumanMessage (js ''In German''),
          HumanMessage (js ''Thanks'')]"

definition extracting_trace :: "message list" where
  "extracting_trace =
     [HumanMessage (js ''Recommend a classic sci-fi movie from the 1980s''),
      AIMessage (JStr (js ''{\"title\":\"x\",\"year\":1}'')) [call (js ''extract-1'')],
      ToolMessage (js ''ok'') (js ''extract-1'')]"

definition busy_store :: "element list \<Rightarrow> store" where
  "busy_store xs =
     \<lparr>arrays = (\<lambda>a. [Msg (HumanMessage (js ''another conversation''))])(3 := xs),
      fresh = 9, console = [js ''earlier output'']\<rparr>"

text \<open>What a run that starts in \<open>s\<close> and ends in \<open>s'\<close> has written to the console.\<close>

definition logged :: "store \<Rightarrow> store \<Rightarrow> jsstring list" where
  "logged s s' = drop (length (console s)) (console s')"

text \<open>The report's example: two of three expected keys are in the JSON the model answered.\<close>

definition movie_keys :: "jsstring list" where
  "movie_keys = [js ''title'', js ''year'', js ''genre'']"

definition movie_trace :: "message list" where
  "movie_trace = [AIMessage (JStr (js ''{\"title\":\"x\",\"year\":1}'')) []]"

text \<open>
  Traces with one signal of tool calling each: a call and no tool result, a tool
  result named after the extraction tool and no call. In both the assistant content
  is JSON.
\<close>

definition call_only_trace :: "message list" where
  "call_only_trace =
     [HumanMessage (js ''Recommend a classic sci-fi movie from the 1980s''),
      AIMessage (JStr (js ''{\"title\":\"x\",\"year\":1}'')) [call (js ''extract-1'')]]"

definition name_only_trace :: "message list" where
  "name_only_trace =
     [AIMessage (JStr (js ''{\"title\":\"x\",\"year\":1}'')) [],
      ToolMessage (js ''ok'') (js ''extract-1'')]"

text \<open>The example again, with every expected key in the answer.\<close>

definition full_movie_trace :: "message list" where
  "full_movie_trace = [AIMessage (JStr (js ''{\"title\":\"x\",\"year\":1,\"genre\":\"y\"}'')) []]"

section \<open>How the classifier reads the store\<close>

lemma find_in_Msg: "find_in p (map Msg ms) = Inr (List.find p ms)"
  by (induction ms) auto

lemma find_holds: "List.find p xs = Some x \<Longrightarrow> p x"
  by (induction xs) (auto split: if_splits)

lemma slice_list_last_five: "slice_list (- 5) xs = drop (length xs - 5) xs"
  by (simp add: slice_list_def Let_def max_def nat_diff_distrib')

lemma hasToolCalls_find:
  "hasToolCalls ms \<longleftrightarrow>
     List.find carries_tool_calls (drop (length ms - 5) ms) \<noteq> None
     \<or> List.find names_extraction (drop (length ms - 5) ms) \<noteq> None"
  by (auto simp: hasToolCalls_def find_None_iff)

lemmas run_simps = analyzeStructuredOutputStrategy_def slice_def spread_def reverse_def
  alloc_def find_msg_def Let_def slice_list_last_five

text \<open>
  On a trace of message objects the three searches succeed, and the record returned is
  a function of \<open>hasToolCalls\<close>, \<open>lastContent\<close> and \<open>toolName\<close> of the trace.
\<close>

lemma analyze_messages:
  assumes "messages < fresh s" and "arrays s messages = map Msg ms"
  shows "fst (analyzeStructuredOutputStrategy parse messages sr s) =
     Inr (let parsed = (case lastContent ms of
                          JStr text \<Rightarrow> (case parse text of Inl e \<Rightarrow> JUndefined | Inr v \<Rightarrow> v)
                        | _ \<Rightarrow> JUndefined)
          in if hasToolCalls ms then
               \<lparr>strategy = TOOL_CALLING, structuredOutputWorked = (sr \<noteq> JUndefined),
                details = js ''Tool calling strategy detected (tool: \"'' @ toolName ms @ js ''\")'',
                parsedJson = Some parsed\<rparr>
             else if truthy parsed then
               \<lparr>strategy = PROVIDER_JSON,
                structuredOutputWorked = (sr \<noteq> JUndefined \<or> parsed \<noteq> JUndefined),
                details = js ''Provider strategy - response is valid JSON'',
                parsedJson = Some parsed\<rparr>
             else if (case lastContent ms of JStr text \<Rightarrow> 0 < length text | _ \<Rightarrow> False) then
               \<lparr>strategy = PROVIDER_NO_JSON, structuredOutputWorked = False,
                details = js ''Provider strategy attempted but response is NOT JSON (plain text/markdown)'',
                parsedJson = None\<rparr>
             else
               \<lparr>strategy = UNKNOWN, structuredOutputWorked = (sr \<noteq> JUndefined),
                details = js ''Could not determine strategy'', parsedJson = None\<rparr>)"
proof -
  have m: "messages \<noteq> fresh s" "messages \<noteq> Suc (fresh s)"
    using assms(1) by simp_all
  show ?thesis
    using assms(2) m
    by (simp add: run_simps hasToolCalls_find lastContent_def lastAiMessage_def toolName_def
        find_in_Msg drop_map rev_map)
qed

text \<open>
  Whatever the trace holds, a call leaves the console and every array that existed
  before it as they were, and only allocates.
\<close>

lemma analyze_frame:
  assumes "messages < fresh s"
  shows "console (snd (analyzeStructuredOutputStrategy parse messages sr s)) = console s"
    and "a < fresh s \<Longrightarrow> arrays (snd (analyzeStructuredOutputStrategy parse messages sr s)) a = arrays s a"
    and "fresh s \<le> fresh (snd (analyzeStructuredOutputStrategy parse messages sr s))"
  by (simp_all add: run_simps split: sum.splits)

lemma analyze_reads_trace_only:
  assumes "messages < fresh s" and "messages' < fresh s'"
    and "arrays s messages = arrays s' messages'"
  shows "fst (analyzeStructuredOutputStrategy parse messages sr s) =
         fst (analyzeStructuredOutputStrategy parse messages' sr s')"
proof -
  have m: "messages \<noteq> fresh s" "messages \<noteq> Suc (fresh s)"
     "messages' \<noteq> fresh s'" "messages' \<noteq> Suc (fresh s')"
    using assms(1,2) by simp_all
  show ?thesis
    using assms(3) m
    by (simp add: run_simps split: sum.splits)
qed

lemmas message_simps = AIMessage_def HumanMessage_def ToolMessage_def call_def
  carries_tool_calls_def names_extraction_def is_ai_message_def

section \<open>Content that is valid JSON\<close>

text \<open>
  When no tool call is detected and the content parses, the branch taken depends on
  the value parsed: \<open>PROVIDER_JSON\<close> for a truthy value, and for a falsy one (\<open>null\<close>,
  \<open>false\<close>, \<open>0\<close>, the empty string) the branch of a content that is not JSON.
\<close>

lemma truthy_value_takes_json_branch:
  assumes "messages < fresh s" and "arrays s messages = map Msg ms"
    and "\<not> hasToolCalls ms" and "lastContent ms = JStr text"
    and "parse text = Inr v" and "truthy v"
  shows "fst (analyzeStructuredOutputStrategy parse messages structuredResponse s) =
     Inr \<lparr>strategy = PROVIDER_JSON, structuredOutputWorked = True,
          details = js ''Provider strategy - response is valid JSON'',
          parsedJson = Some v\<rparr>"
  using assms(3-) by (auto simp: analyze_messages [OF assms(1,2)])

lemma falsy_values: "\<not> truthy v \<longleftrightarrow> v \<in> {JUndefined, JNull, JBool False, JNum 0, JStr []}"
  by (cases v) auto

lemma falsy_value_takes_no_json_branch:
  assumes "messages < fresh s" and "arrays s messages = map Msg ms"
    and "\<not> hasToolCalls ms" and "lastContent ms = JStr text" and "text \<noteq> []"
    and "parse text = Inr v" and "\<not> truthy v"
  shows "fst (analyzeStructuredOutputStrategy parse messages structuredResponse s) =
     Inr \<lparr>strategy = PROVIDER_NO_JSON, structuredOutputWorked = False,
          details = js ''Provider strategy attempted but response is NOT JSON (plain text/markdown)'',
          parsedJson = None\<rparr>"
  using assms(3-) by (simp add: analyze_messages [OF assms(1,2)])

lemma null_is_json: "JSON_parse (js ''null'') = Inr JNull"
  by code_simp

text \<open>
  C1: the content \<open>null\<close> is valid JSON, but the branch for valid JSON is taken on the
  truthiness of the parsed value (\<open>if (parsedJson)\<close>), so the classification is
  \<open>PROVIDER_NO_JSON\<close>, the output counts as failed and the record has no \<open>parsedJson\<close>.
\<close>

theorem null_content_is_classified_not_json:
  "JSON_parse (js ''null'') = Inr JNull
   \<and> fst (analyzeStructuredOutputStrategy JSON_parse 0 structuredResponse
            (trace_store [Msg (AIMessage (JStr (js ''null'')) [])])) =
       Inr \<lparr>strategy = PROVIDER_NO_JSON, structuredOutputWorked = False,
            details = js ''Provider strategy attempted but response is NOT JSON (plain text/markdown)'',
            parsedJson = None\<rparr>"
proof -
  let ?m = "AIMessage (JStr (js ''null'')) []"
  have 1: "0 < fresh (trace_store [Msg ?m])"
    by (simp add: trace_store_def)
  have 2: "arrays (trace_store [Msg ?m]) 0 = map Msg [?m]"
    by (simp add: trace_store_def)
  have 3: "\<not> hasToolCalls [?m]"
    by (simp add: hasToolCalls_def AIMessage_def carries_tool_calls_def names_extraction_def)
  have 4: "lastContent [?m] = JStr (js ''null'')"
    by (simp add: lastContent_def lastAiMessage_def AIMessage_def is_ai_message_def)
  have 5: "js ''null'' \<noteq> []"
    by (simp add: js_def)
  show ?thesis
    using 3 5 by (simp add: analyze_messages [OF 1 2] 4 null_is_json)
qed

theorem null_content_is_classified_not_json_witness:
  "JSON_parse (js ''null'') = Inr JNull
   \<and> fst (analyzeStructuredOutputStrategy JSON_parse 0 JUndefined
            (trace_store [Msg (AIMessage (JStr (js ''null'')) [])])) =
       Inr \<lparr>strategy = PROVIDER_NO_JSON, structuredOutputWorked = False,
            details = js ''Provider strategy attempted but response is NOT JSON (plain text/markdown)'',
            parsedJson = None\<rparr>"
  by (rule null_content_is_classified_not_json [of JUndefined])

section \<open>Tool calls\<close>

text \<open>
  C2, amended: a message with at least one tool call among the last five messages of
  the trace makes the classification \<open>TOOL_CALLING\<close>, whatever the contents are; the
  output worked exactly when the structured response is defined.
\<close>

theorem tool_calling_within_last_five:
  assumes "messages < fresh s" and "arrays s messages = map Msg ms"
    and "m \<in> set (drop (length ms - 5) ms)" and "carries_tool_calls m"
  shows "\<exists>a. fst (analyzeStructuredOutputStrategy parse messages structuredResponse s) = Inr a
           \<and> strategy a = TOOL_CALLING
           \<and> structuredOutputWorked a = (structuredResponse \<noteq> JUndefined)"
proof -
  have "hasToolCalls ms"
    using assms(3,4) by (auto simp: hasToolCalls_def)
  then show ?thesis
    by (simp add: analyze_messages [OF assms(1,2)] Let_def)
qed

theorem tool_calling_within_last_five_witness:
  "\<exists>a. fst (analyzeStructuredOutputStrategy JSON_parse 0 JUndefined
              (trace_store [Msg (AIMessage (JStr []) [call (js ''tavily_search'')])])) = Inr a
       \<and> strategy a = TOOL_CALLING \<and> \<not> structuredOutputWorked a"
proof -
  let ?m = "AIMessage (JStr []) [call (js ''tavily_search'')]"
  have 1: "0 < fresh (trace_store [Msg ?m])"
    by (simp add: trace_store_def)
  have 2: "arrays (trace_store [Msg ?m]) 0 = map Msg [?m]"
    by (simp add: trace_store_def)
  have 3: "?m \<in> set (drop (length [?m] - 5) [?m])"
    by simp
  have 4: "carries_tool_calls ?m"
    by (simp add: message_simps)
  show ?thesis
    using tool_calling_within_last_five [where parse = JSON_parse, OF 1 2 3 4, of JUndefined]
    by simp
qed

lemma empty_is_not_json: "JSON_parse [] = Inl SyntaxError"
  by (simp add: JSON_parse_def skip_ws_def)

text \<open>
  C2 as stated fails: an assistant message with a tool call that is followed by more
  than four other messages is outside the window.
\<close>

theorem tool_call_before_last_five_counterexample:
  "is_ai_message (hd early_tool_call_trace) \<and> carries_tool_calls (hd early_tool_call_trace)
   \<and> hd early_tool_call_trace \<in> set early_tool_call_trace
   \<and> fst (analyzeStructuredOutputStrategy JSON_parse 0 JUndefined
            (trace_store (map Msg early_tool_call_trace))) =
       Inr \<lparr>strategy = UNKNOWN, structuredOutputWorked = False,
            details = js ''Could not determine strategy'', parsedJson = None\<rparr>"
proof -
  have 1: "0 < fresh (trace_store (map Msg early_tool_call_trace))"
    by (simp add: trace_store_def)
  have 2: "arrays (trace_store (map Msg early_tool_call_trace)) 0 = map Msg early_tool_call_trace"
    by (simp add: trace_store_def)
  have 3: "\<not> hasToolCalls early_tool_call_trace"
    by (simp add: hasToolCalls_def early_tool_call_trace_def message_simps)
  have 4: "lastContent early_tool_call_trace = JStr []"
    by (simp add: lastContent_def lastAiMessage_def early_tool_call_trace_def message_simps
        js_def)
  have 5: "is_ai_message (hd early_tool_call_trace) \<and> carries_tool_calls (hd early_tool_call_trace)
    \<and> hd early_tool_call_trace \<in> set early_tool_call_trace"
    by (simp add: early_tool_call_trace_def message_simps)
  show ?thesis
    using 3 4 5 by (simp add: analyze_messages [OF 1 2] empty_is_not_json)
qed











lemma movie_is_json_text:
  "JSON_parse (js ''{\"title\":\"x\",\"year\":1}'') =
     Inr (JObj [(js ''title'', JStr (js ''x'')), (js ''year'', JNum 1)])"
  by code_simp



text \<open>The records returned on the two traces of the witness, and on a trace with both signals.\<close>

lemma single_signal_results:
  "fst (analyzeStructuredOutputStrategy JSON_parse 0 JUndefined
          (trace_store (map Msg call_only_trace))) =
     Inr \<lparr>strategy = TOOL_CALLING, structuredOutputWorked = False,
          details = js ''Tool calling strategy detected (tool: \"extract-1\")'',
          parsedJson = Some (JObj [(js ''title'', JStr (js ''x'')), (js ''year'', JNum 1)])\<rparr>"
  "fst (analyzeStructuredOutputStrategy JSON_parse 0 JNull
          (trace_store (map Msg name_only_trace))) =
     Inr \<lparr>strategy = TOOL_CALLING, structuredOutputWorked = True,
          details = js ''Tool calling strategy detected (tool: \"extract-1\")'',
          parsedJson = Some (JObj [(js ''title'', JStr (js ''x'')), (js ''year'', JNum 1)])\<rparr>"
proof -
  have 1: "0 < fresh (trace_store xs)" "arrays (trace_store xs) 0 = xs" for xs
    by (simp_all add: trace_store_def)
  have c: "hasToolCalls call_only_trace" "hasToolCalls name_only_trace"
    by (simp_all add: hasToolCalls_def call_only_trace_def name_only_trace_def message_simps js_def)
  have l: "lastContent call_only_trace = JStr (js ''{\"title\":\"x\",\"year\":1}'')"
    "lastContent name_only_trace = JStr (js ''{\"title\":\"x\",\"year\":1}'')"
    by (simp_all add: lastContent_def lastAiMessage_def call_only_trace_def name_only_trace_def
        message_simps js_def)
  have n: "toolName call_only_trace = js ''extract-1''" "toolName name_only_trace = js ''extract-1''"
    by (simp_all add: toolName_def call_only_trace_def name_only_trace_def message_simps
        or_else_def first_call_name_def message_name_def js_def)
  show "fst (analyzeStructuredOutputStrategy JSON_parse 0 JUndefined
          (trace_store (map Msg call_only_trace))) =
     Inr \<lparr>strategy = TOOL_CALLING, structuredOutputWorked = False,
          details = js ''Tool calling strategy detected (tool: \"extract-1\")'',
          parsedJson = Some (JObj [(js ''title'', JStr (js ''x'')), (js ''year'', JNum 1)])\<rparr>"
    by (simp add: analyze_messages [OF 1] c l n movie_is_json_text) (simp add: js_def)
  show "fst (analyzeStructuredOutputStrategy JSON_parse 0 JNull
          (trace_store (map Msg name_only_trace))) =
     Inr \<lparr>strategy = TOOL_CALLING, structuredOutputWorked = True,
          details = js ''Tool calling strategy detected (tool: \"extract-1\")'',
          parsedJson = Some (JObj [(js ''title'', JStr (js ''x'')), (js ''year'', JNum 1)])\<rparr>"
    by (simp add: analyze_messages [OF 1] c l n movie_is_json_text) (simp add: js_def)
qed

lemma extracting_trace_result:
  "fst (analyzeStructuredOutputStrategy JSON_parse 0 JUndefined
              (trace_store (map Msg extracting_trace))) = 
    Inr \<lparr>strategy = TOOL_CALLING, structuredOutputWorked = False,
         details = js ''Tool calling strategy detected (tool: \"extract-1\")'',
         parsedJson = Some (JObj [(js ''title'', JStr (js ''x'')), (js ''year'', JNum 1)])\<rparr>"
proof -
  have 1: "0 < fresh (trace_store (map Msg extracting_trace))"
    by (simp add: trace_store_def)
  have 2: "arrays (trace_store (map Msg extracting_trace)) 0 = map Msg extracting_trace"
    by (simp add: trace_store_def)
  have p: "JSON_parse (js ''{\"title\":\"x\",\"year\":1}'') = Inr (JObj [(js ''title'', JStr (js ''x'')), (js ''year'', JNum 1)])"
    by code_simp
  have 3: "hasToolCalls extracting_trace"
    by (simp add: hasToolCalls_def extracting_trace_def AIMessage_def HumanMessage_def
       ToolMessage_def call_def carries_tool_calls_def)
  have 4: "lastContent extracting_trace = JStr (js ''{\"title\":\"x\",\"year\":1}'')"
    by (simp add: lastContent_def lastAiMessage_def extracting_trace_def AIMessage_def HumanMessage_def
       ToolMessage_def is_ai_message_def js_def)
  have 5: "toolName extracting_trace = js ''extract-1''"
    by (simp add: toolName_def extracting_trace_def AIMessage_def HumanMessage_def
       ToolMessage_def call_def carries_tool_calls_def or_else_def first_call_name_def js_def)
  show ?thesis
    by (simp add: analyze_messages [OF 1 2] 3 4 5 p) (simp add: js_def)
qed

section \<open>The report of the key comparison\<close>

lemma log_schema_match_truthy:
  assumes "parsedJson analysis = Some v" and "truthy v" and "Object_keys v = Inr jsonKeys"
  shows "log_schema_match analysis schemaKeys s =
     Inr (s\<lparr>console := console s @
            [[0x0A] @ js ''Parsed JSON keys: ['' @ join (js '', '') jsonKeys @ js '']'',
             js ''Expected schema keys: ['' @ join (js '', '') schemaKeys @ js '']'',
             schema_match_line (\<forall>k \<in> set schemaKeys. k \<in> set jsonKeys)]\<rparr>)"
  using assms by (simp add: log_schema_match_def console_log_def Let_def list_all_iff)

lemma log_preview_messages:
  assumes "arrays s messages = map Msg ms"
  shows "\<exists>s' ls. log_preview messages s = Inr s' \<and> console s' = console s @ ls
           \<and> (\<forall>l \<in> set ls. l \<noteq> [] \<and> (hd l = 0x0A \<or> hd l = 0x22))"
  using assms
  by (simp add: log_preview_def spread_def reverse_def alloc_def find_msg_def Let_def
      find_in_Msg rev_map console_log_def js_def split: option.splits jsvalue.splits)

text \<open>No other line of the report can be taken for the line of the key comparison.\<close>

lemma schema_match_line_head: "schema_match_line b \<noteq> [] \<and> hd (schema_match_line b) = 0x53"
  by (simp add: schema_match_line_def js_def)

lemma schema_match_line_inject: "schema_match_line b = schema_match_line c \<longleftrightarrow> b = c"
  by (simp add: schema_match_line_def js_def check_glyph_def cross_glyph_def)

lemma repeat_unfold: "0 < n \<Longrightarrow> repeat t n = t @ repeat t (n - 1)"
  by (cases n) (simp_all add: repeat_def)

lemma schema_match_line_other:
  "schema_match_line b \<noteq> [0x0A] @ x"
  "schema_match_line b \<noteq> chart_glyph @ x"
  "schema_match_line b \<noteq> rule_glyph @ x"
  "schema_match_line b \<noteq> js ''Strategy Detected: '' @ x"
  "schema_match_line b \<noteq> js ''Details: '' @ x"
  "schema_match_line b \<noteq> js ''structuredResponse defined: '' @ x"
  "schema_match_line b \<noteq> check_glyph @ x"
  "schema_match_line b \<noteq> cross_glyph @ x"
  "schema_match_line b \<noteq> js ''Expected schema keys: ['' @ x"
  by (simp_all add: schema_match_line_def js_def check_glyph_def cross_glyph_def chart_glyph_def
      rule_glyph_def)

lemma schema_match_line_rule: "schema_match_line b \<noteq> repeat rule_glyph 50"
  using schema_match_line_other(3) [of b "repeat rule_glyph (50 - 1)"]
  by (simp add: repeat_unfold [of 50 rule_glyph])

lemma console_log_if:
  "(if c then console_log x s else console_log y s) = console_log (if c then x else y) s"
  by simp

text \<open>
  The lines of a report for a classification whose \<open>parsedJson\<close> is truthy, on a trace
  of message objects; \<open>ls\<close> is the preview of the last assistant message, when there
  is one.
\<close>

lemma log_report:
  assumes "messages < fresh s" and "arrays s messages = map Msg ms"
    and "fst (analyzeStructuredOutputStrategy parse messages structuredResponse s) = Inr analysis"
    and "parsedJson analysis = Some v" and "truthy v" and "Object_keys v = Inr jsonKeys"
  shows "\<exists>ls. fst (logStrategyAnalysis parse messages structuredResponse schemaKeys s) = Inr ()
     \<and> logged s (snd (logStrategyAnalysis parse messages structuredResponse schemaKeys s)) =
         [[0x0A] @ repeat rule_glyph 50,
          chart_glyph @ js '' STRATEGY ANALYSIS'',
          repeat rule_glyph 50,
          js ''Strategy Detected: '' @ strategy_text (strategy analysis),
          js ''Details: '' @ details analysis,
          js ''structuredResponse defined: '' @ boolean_text (structuredResponse \<noteq> JUndefined),
          (if structuredOutputWorked analysis then check_glyph @ js '' Structured output WORKED''
           else cross_glyph @ js '' Structured output FAILED''),
          [0x0A] @ js ''Parsed JSON keys: ['' @ join (js '', '') jsonKeys @ js '']'',
          js ''Expected schema keys: ['' @ join (js '', '') schemaKeys @ js '']'',
          schema_match_line (\<forall>k \<in> set schemaKeys. k \<in> set jsonKeys)]
         @ ls @ [repeat rule_glyph 50]
     \<and> (\<forall>l \<in> set ls. l \<noteq> [] \<and> (hd l = 0x0A \<or> hd l = 0x22))"
proof -
  define s1 where "s1 = snd (analyzeStructuredOutputStrategy parse messages structuredResponse s)"
  have run: "analyzeStructuredOutputStrategy parse messages structuredResponse s = (Inr analysis, s1)"
    using assms(3) by (simp add: s1_def prod_eq_iff)
  have c1: "console s1 = console s"
    unfolding s1_def by (rule analyze_frame(1) [OF assms(1)])
  have a1: "arrays s1 messages = map Msg ms"
    unfolding s1_def using analyze_frame(2) [OF assms(1) assms(1)] assms(2) by simp
  define s9 where "s9 =
    s1\<lparr>console := console s @
         [[0x0A] @ repeat rule_glyph 50,
          chart_glyph @ js '' STRATEGY ANALYSIS'',
          repeat rule_glyph 50,
          js ''Strategy Detected: '' @ strategy_text (strategy analysis),
          js ''Details: '' @ details analysis,
          js ''structuredResponse defined: '' @ boolean_text (structuredResponse \<noteq> JUndefined),
          (if structuredOutputWorked analysis then check_glyph @ js '' Structured output WORKED''
           else cross_glyph @ js '' Structured output FAILED''),
          [0x0A] @ js ''Parsed JSON keys: ['' @ join (js '', '') jsonKeys @ js '']'',
          js ''Expected schema keys: ['' @ join (js '', '') schemaKeys @ js '']'',
          schema_match_line (\<forall>k \<in> set schemaKeys. k \<in> set jsonKeys)]\<rparr>"
  have "arrays s9 messages = map Msg ms"
    by (simp add: s9_def a1)
  from log_preview_messages [OF this] obtain s10 ls
    where p: "log_preview messages s9 = Inr s10" "console s10 = console s9 @ ls"
      "\<forall>l \<in> set ls. l \<noteq> [] \<and> (hd l = 0x0A \<or> hd l = 0x22)"
    by blast
  have out: "logStrategyAnalysis parse messages structuredResponse schemaKeys s =
      (Inr (), console_log (repeat rule_glyph 50) s10)"
    using p(1)
    by (simp add: logStrategyAnalysis_def run Let_def console_log_if
        log_schema_match_truthy [OF assms(4,5,6)] console_log_def c1 s9_def
        split del: if_split)
  show ?thesis
    using p(2,3) by (intro exI [of _ ls]) (simp add: out logged_def console_log_def s9_def)
qed

text \<open>
  C4, amended: for a classification with a truthy \<open>parsedJson\<close>, the report says \<open>YES\<close>
  exactly when every expected key is among the keys of the JSON, and \<open>NO\<close> exactly
  when one is not: membership in a set of keys, so the order of neither list matters,
  and keys are equal when their code units are. The report lists the keys found and
  all the keys expected. In the example of the claim (keys \<open>title\<close> and \<open>year\<close> found,
  \<open>genre\<close> expected too) it says \<open>NO\<close> and prints the two lists; with \<open>genre\<close> found as
  well it says \<open>YES\<close> and prints the same list of expected keys.
\<close>

theorem schema_match_report:
  assumes "messages < fresh s" and "arrays s messages = map Msg ms"
    and "fst (analyzeStructuredOutputStrategy parse messages structuredResponse s) = Inr analysis"
    and "parsedJson analysis = Some v" and "truthy v" and "Object_keys v = Inr jsonKeys"
  shows "fst (logStrategyAnalysis parse messages structuredResponse schemaKeys s) = Inr ()
     \<and> (schema_match_line True
           \<in> set (logged s (snd (logStrategyAnalysis parse messages structuredResponse schemaKeys s)))
         \<longleftrightarrow> (\<forall>k \<in> set schemaKeys. k \<in> set jsonKeys))
     \<and> (schema_match_line False
           \<in> set (logged s (snd (logStrategyAnalysis parse messages structuredResponse schemaKeys s)))
         \<longleftrightarrow> \<not> (\<forall>k \<in> set schemaKeys. k \<in> set jsonKeys))
     \<and> [0x0A] @ js ''Parsed JSON keys: ['' @ join (js '', '') jsonKeys @ js '']''
           \<in> set (logged s (snd (logStrategyAnalysis parse messages structuredResponse schemaKeys s)))
     \<and> js ''Expected schema keys: ['' @ join (js '', '') schemaKeys @ js '']''
           \<in> set (logged s (snd (logStrategyAnalysis parse messages structuredResponse schemaKeys s)))"
proof -
  from log_report [OF assms, of schemaKeys] obtain ls
    where r: "fst (logStrategyAnalysis parse messages structuredResponse schemaKeys s) = Inr ()"
      "logged s (snd (logStrategyAnalysis parse messages structuredResponse schemaKeys s)) =
         [[0x0A] @ repeat rule_glyph 50,
          chart_glyph @ js '' STRATEGY ANALYSIS'',
          repeat rule_glyph 50,
          js ''Strategy Detected: '' @ strategy_text (strategy analysis),
          js ''Details: '' @ details analysis,
          js ''structuredResponse defined: '' @ boolean_text (structuredResponse \<noteq> JUndefined),
          (if structuredOutputWorked analysis then check_glyph @ js '' Structured output WORKED''
           else cross_glyph @ js '' Structured output FAILED''),
          [0x0A] @ js ''Parsed JSON keys: ['' @ join (js '', '') jsonKeys @ js '']'',
          js ''Expected schema keys: ['' @ join (js '', '') schemaKeys @ js '']'',
          schema_match_line (\<forall>k \<in> set schemaKeys. k \<in> set jsonKeys)]
         @ ls @ [repeat rule_glyph 50]"
      "\<forall>l \<in> set ls. l \<noteq> [] \<and> (hd l = 0x0A \<or> hd l = 0x22)"
    by blast
  have ls: "schema_match_line b \<notin> set ls" for b
    using r(3) schema_match_line_head [of b] by auto
  have line: "schema_match_line b
       \<in> set (logged s (snd (logStrategyAnalysis parse messages structuredResponse schemaKeys s)))
     \<longleftrightarrow> b = (\<forall>k \<in> set schemaKeys. k \<in> set jsonKeys)" for b
    unfolding r(2)
    using schema_match_line_other [of b] schema_match_line_rule [of b]
    by (simp add: ls schema_match_line_inject del: append.simps)
  show ?thesis
    using line [of True] line [of False] by (simp add: r(1)) (simp add: r(2))
qed

lemma movie_is_json:
  "JSON_parse (js ''{\"title\":\"x\",\"year\":1}'') =
     Inr (JObj [(js ''title'', JStr (js ''x'')), (js ''year'', JNum 1)])"
  by code_simp

lemma movie_analysis:
  "fst (analyzeStructuredOutputStrategy JSON_parse 0 JUndefined (trace_store (map Msg movie_trace))) =
     Inr \<lparr>strategy = PROVIDER_JSON, structuredOutputWorked = True,
          details = js ''Provider strategy - response is valid JSON'',
          parsedJson = Some (JObj [(js ''title'', JStr (js ''x'')), (js ''year'', JNum 1)])\<rparr>"
proof -
  have 1: "0 < fresh (trace_store (map Msg movie_trace))"
    by (simp add: trace_store_def)
  have 2: "arrays (trace_store (map Msg movie_trace)) 0 = map Msg movie_trace"
    by (simp add: trace_store_def)
  have 3: "\<not> hasToolCalls movie_trace"
    by (simp add: hasToolCalls_def movie_trace_def message_simps)
  have 4: "lastContent movie_trace = JStr (js ''{\"title\":\"x\",\"year\":1}'')"
    by (simp add: lastContent_def lastAiMessage_def movie_trace_def message_simps)
  show ?thesis
    using 3 by (simp add: analyze_messages [OF 1 2] 4 movie_is_json)
qed

lemma full_movie_is_json:
  "JSON_parse (js ''{\"title\":\"x\",\"year\":1,\"genre\":\"y\"}'') =
     Inr (JObj [(js ''title'', JStr (js ''x'')), (js ''year'', JNum 1), (js ''genre'', JStr (js ''y''))])"
  by code_simp

lemma full_movie_analysis:
  "fst (analyzeStructuredOutputStrategy JSON_parse 0 JUndefined (trace_store (map Msg full_movie_trace))) =
     Inr \<lparr>strategy = PROVIDER_JSON, structuredOutputWorked = True,
          details = js ''Provider strategy - response is valid JSON'',
          parsedJson = Some (JObj [(js ''title'', JStr (js ''x'')), (js ''year'', JNum 1),
                                   (js ''genre'', JStr (js ''y''))])\<rparr>"
proof -
  have 1: "0 < fresh (trace_store (map Msg full_movie_trace))"
    by (simp add: trace_store_def)
  have 2: "arrays (trace_store (map Msg full_movie_trace)) 0 = map Msg full_movie_trace"
    by (simp add: trace_store_def)
  have 3: "\<not> hasToolCalls full_movie_trace"
    by (simp add: hasToolCalls_def full_movie_trace_def message_simps)
  have 4: "lastContent full_movie_trace = JStr (js ''{\"title\":\"x\",\"year\":1,\"genre\":\"y\"}'')"
    by (simp add: lastContent_def lastAiMessage_def full_movie_trace_def message_simps)
  show ?thesis
    using 3 by (simp add: analyze_messages [OF 1 2] 4 full_movie_is_json)
qed

theorem schema_match_report_witness:
  "(fst (logStrategyAnalysis JSON_parse 0 JUndefined movie_keys (trace_store (map Msg movie_trace))) = Inr ()
   \<and> js ''Schema match: '' @ cross_glyph @ js '' NO''
        \<in> set (console (snd (logStrategyAnalysis JSON_parse 0 JUndefined movie_keys
                               (trace_store (map Msg movie_trace)))))
   \<and> js ''Schema match: '' @ check_glyph @ js '' YES''
        \<notin> set (console (snd (logStrategyAnalysis JSON_parse 0 JUndefined movie_keys
                               (trace_store (map Msg movie_trace)))))
   \<and> [0x0A] @ js ''Parsed JSON keys: [title, year]''
        \<in> set (console (snd (logStrategyAnalysis JSON_parse 0 JUndefined movie_keys
                               (trace_store (map Msg movie_trace)))))
   \<and> js ''Expected schema keys: [title, year, genre]''
        \<in> set (console (snd (logStrategyAnalysis JSON_parse 0 JUndefined movie_keys
                               (trace_store (map Msg movie_trace))))))
   \<and> (js ''Schema match: '' @ check_glyph @ js '' YES''
        \<in> set (console (snd (logStrategyAnalysis JSON_parse 0 JUndefined movie_keys
                               (trace_store (map Msg full_movie_trace)))))
   \<and> js ''Schema match: '' @ cross_glyph @ js '' NO''
        \<notin> set (console (snd (logStrategyAnalysis JSON_parse 0 JUndefined movie_keys
                               (trace_store (map Msg full_movie_trace)))))
   \<and> [0x0A] @ js ''Parsed JSON keys: [title, year, genre]''
        \<in> set (console (snd (logStrategyAnalysis JSON_parse 0 JUndefined movie_keys
                               (trace_store (map Msg full_movie_trace)))))
   \<and> js ''Expected schema keys: [title, year, genre]''
        \<in> set (console (snd (logStrategyAnalysis JSON_parse 0 JUndefined movie_keys
                               (trace_store (map Msg full_movie_trace))))))"
proof
  let ?v = "JObj [(js ''title'', JStr (js ''x'')), (js ''year'', JNum 1)]"
  let ?a = "\<lparr>strategy = PROVIDER_JSON, structuredOutputWorked = True,
          details = js ''Provider strategy - response is valid JSON'',
          parsedJson = Some ?v\<rparr>"
  have 1: "0 < fresh (trace_store (map Msg movie_trace))"
    by (simp add: trace_store_def)
  have 2: "arrays (trace_store (map Msg movie_trace)) 0 = map Msg movie_trace"
    by (simp add: trace_store_def)
  have 4: "parsedJson ?a = Some ?v"
    by simp
  have 5: "truthy ?v"
    by simp
  have 6: "Object_keys ?v = Inr [js ''title'', js ''year'']"
    by simp
  have 7: "logged (trace_store xs) s' = console s'" for xs s'
    by (simp add: logged_def trace_store_def)
  show "fst (logStrategyAnalysis JSON_parse 0 JUndefined movie_keys (trace_store (map Msg movie_trace))) = Inr ()
   \<and> js ''Schema match: '' @ cross_glyph @ js '' NO''
        \<in> set (console (snd (logStrategyAnalysis JSON_parse 0 JUndefined movie_keys
                               (trace_store (map Msg movie_trace)))))
   \<and> js ''Schema match: '' @ check_glyph @ js '' YES''
        \<notin> set (console (snd (logStrategyAnalysis JSON_parse 0 JUndefined movie_keys
                               (trace_store (map Msg movie_trace)))))
   \<and> [0x0A] @ js ''Parsed JSON keys: [title, year]''
        \<in> set (console (snd (logStrategyAnalysis JSON_parse 0 JUndefined movie_keys
                               (trace_store (map Msg movie_trace)))))
   \<and> js ''Expected schema keys: [title, year, genre]''
        \<in> set (console (snd (logStrategyAnalysis JSON_parse 0 JUndefined movie_keys
                               (trace_store (map Msg movie_trace)))))"
    using schema_match_report [where parse = JSON_parse, OF 1 2 movie_analysis 4 5 6, of movie_keys]
    by (simp add: 7 movie_keys_def schema_match_line_def js_def)
next
  let ?v = "JObj [(js ''title'', JStr (js ''x'')), (js ''year'', JNum 1), (js ''genre'', JStr (js ''y''))]"
  let ?a = "\<lparr>strategy = PROVIDER_JSON, structuredOutputWorked = True,
          details = js ''Provider strategy - response is valid JSON'',
          parsedJson = Some ?v\<rparr>"
  have 1: "0 < fresh (trace_store (map Msg full_movie_trace))"
    by (simp add: trace_store_def)
  have 2: "arrays (trace_store (map Msg full_movie_trace)) 0 = map Msg full_movie_trace"
    by (simp add: trace_store_def)
  have 4: "parsedJson ?a = Some ?v"
    by simp
  have 5: "truthy ?v"
    by simp
  have 6: "Object_keys ?v = Inr [js ''title'', js ''year'', js ''genre'']"
    by simp
  have 7: "logged (trace_store xs) s' = console s'" for xs s'
    by (simp add: logged_def trace_store_def)
  show "js ''Schema match: '' @ check_glyph @ js '' YES''
        \<in> set (console (snd (logStrategyAnalysis JSON_parse 0 JUndefined movie_keys
                               (trace_store (map Msg full_movie_trace)))))
   \<and> js ''Schema match: '' @ cross_glyph @ js '' NO''
        \<notin> set (console (snd (logStrategyAnalysis JSON_parse 0 JUndefined movie_keys
                               (trace_store (map Msg full_movie_trace)))))
   \<and> [0x0A] @ js ''Parsed JSON keys: [title, year, genre]''
        \<in> set (console (snd (logStrategyAnalysis JSON_parse 0 JUndefined movie_keys
                               (trace_store (map Msg full_movie_trace)))))
   \<and> js ''Expected schema keys: [title, year, genre]''
        \<in> set (console (snd (logStrategyAnalysis JSON_parse 0 JUndefined movie_keys
                               (trace_store (map Msg full_movie_trace)))))"
    using schema_match_report [where parse = JSON_parse, OF 1 2 full_movie_analysis 4 5 6, of movie_keys]
    by (simp add: 7 movie_keys_def schema_match_line_def js_def)
qed

text \<open>
  C4 as stated fails: the report of the example, line by line. It says \<open>NO\<close>, and no
  line of it gives the missing key: \<open>genre\<close> is only in the list of all expected keys.
\<close>

theorem missing_key_not_listed_counterexample:
  "console (snd (logStrategyAnalysis JSON_parse 0 JUndefined movie_keys
                   (trace_store (map Msg movie_trace)))) =
     [[0x0A] @ repeat rule_glyph 50,
      chart_glyph @ js '' STRATEGY ANALYSIS'',
      repeat rule_glyph 50,
      js ''Strategy Detected: PROVIDER_JSON'',
      js ''Details: Provider strategy - response is valid JSON'',
      js ''structuredResponse defined: false'',
      check_glyph @ js '' Structured output WORKED'',
      [0x0A] @ js ''Parsed JSON keys: [title, year]'',
      js ''Expected schema keys: [title, year, genre]'',
      js ''Schema match: '' @ cross_glyph @ js '' NO'',
      [0x0A] @ js ''Last AI message preview (first 200 chars):'',
      js ''\"{\"title\":\"x\",\"year\":1}\"'',
      repeat rule_glyph 50]"
proof -
  define s1 where "s1 = snd (analyzeStructuredOutputStrategy JSON_parse 0 JUndefined
                               (trace_store (map Msg movie_trace)))"
  have 0: "0 < fresh (trace_store (map Msg movie_trace))"
    by (simp add: trace_store_def)
  have run: "analyzeStructuredOutputStrategy JSON_parse 0 JUndefined (trace_store (map Msg movie_trace)) =
      (Inr \<lparr>strategy = PROVIDER_JSON, structuredOutputWorked = True,
            details = js ''Provider strategy - response is valid JSON'',
            parsedJson = Some (JObj [(js ''title'', JStr (js ''x'')), (js ''year'', JNum 1)])\<rparr>, s1)"
    using movie_analysis by (simp add: s1_def prod_eq_iff)
  have c1: "console s1 = []"
    unfolding s1_def using analyze_frame(1) [OF 0] by (simp add: trace_store_def)
  have a1: "arrays s1 0 = map Msg movie_trace"
    unfolding s1_def using analyze_frame(2) [OF 0 0] by (simp add: trace_store_def)
  have p: "find_in is_ai_message (rev (map Msg movie_trace)) =
      Inr (Some (AIMessage (JStr (js ''{\"title\":\"x\",\"year\":1}'')) []))"
    by (simp add: movie_trace_def message_simps)
  have t: "take 200 (js ''{\"title\":\"x\",\"year\":1}'') = js ''{\"title\":\"x\",\"year\":1}''"
    "\<not> 200 < length (js ''{\"title\":\"x\",\"year\":1}'')" "js ''{\"title\":\"x\",\"year\":1}'' \<noteq> []"
    by (simp_all add: js_def)
  have k: "join (js '', '') [js ''title'', js ''year''] = js ''title, year''"
    "join (js '', '') movie_keys = js ''title, year, genre''"
    "list_all (\<lambda>k. k \<in> set [js ''title'', js ''year'']) movie_keys = False"
    by (simp_all add: js_def movie_keys_def)
  have j: "js (a @ b) = js a @ js b" for a b
    by (simp add: js_def)
  show ?thesis
    by (simp add: logStrategyAnalysis_def run Let_def log_schema_match_def log_preview_def
        console_log_def spread_def reverse_def alloc_def find_msg_def a1 c1 p AIMessage_def t k
        schema_match_line_def boolean_text_def)
       (simp add: js_def movie_keys_def)
qed

section \<open>Content that is not JSON, and no content\<close>

lemma prose_is_not_json: "JSON_parse (js ''Here is my answer in prose.'') = Inl SyntaxError"
  by code_simp

text \<open>
  C5: when no tool call is detected and the content of the most recent assistant
  message is a non-empty string that \<open>JSON.parse\<close> rejects, the classification is
  \<open>PROVIDER_NO_JSON\<close> and the output did not work, whatever the structured response.
\<close>

theorem provider_no_json:
  assumes "messages < fresh s" and "arrays s messages = map Msg ms"
    and "\<not> hasToolCalls ms"
    and "lastContent ms = JStr text" and "text \<noteq> []"
    and "parse text = Inl e"
  shows "fst (analyzeStructuredOutputStrategy parse messages structuredResponse s) =
     Inr \<lparr>strategy = PROVIDER_NO_JSON, structuredOutputWorked = False,
          details = js ''Provider strategy attempted but response is NOT JSON (plain text/markdown)'',
          parsedJson = None\<rparr>"
  using assms(3-) by (simp add: analyze_messages [OF assms(1,2)])

theorem provider_no_json_witness:
  "fst (analyzeStructuredOutputStrategy JSON_parse 0 JUndefined
          (trace_store [Msg (AIMessage (JStr (js ''Here is my answer in prose.'')) [])])) =
     Inr \<lparr>strategy = PROVIDER_NO_JSON, structuredOutputWorked = False,
          details = js ''Provider strategy attempted but response is NOT JSON (plain text/markdown)'',
          parsedJson = None\<rparr>"
proof -
  let ?m = "AIMessage (JStr (js ''Here is my answer in prose.'')) []"
  have 1: "0 < fresh (trace_store [Msg ?m])"
    by (simp add: trace_store_def)
  have 2: "arrays (trace_store [Msg ?m]) 0 = map Msg [?m]"
    by (simp add: trace_store_def)
  have 3: "\<not> hasToolCalls [?m]"
    by (simp add: hasToolCalls_def AIMessage_def carries_tool_calls_def names_extraction_def)
  have 4: "lastContent [?m] = JStr (js ''Here is my answer in prose.'')"
    by (simp add: lastContent_def lastAiMessage_def AIMessage_def is_ai_message_def)
  have 5: "js ''Here is my answer in prose.'' \<noteq> []"
    by (simp add: js_def)
  show ?thesis
    by (rule provider_no_json [where parse = JSON_parse, OF 1 2 3 4 5 prose_is_not_json])
qed

text \<open>
  C6: for the empty trace, and for every trace of messages in which no tool call is
  detected and the most recent assistant message has no content (there is no assistant
  message, its content is \<open>undefined\<close>, or it is the empty string, which is not JSON),
  the classification is \<open>UNKNOWN\<close>, and the output worked exactly when the structured
  response is defined.
\<close>

theorem unknown_without_content:
  assumes "messages < fresh s" and "arrays s messages = map Msg ms"
    and "ms = [] \<or> (\<not> hasToolCalls ms \<and>
           (lastContent ms = JUndefined \<or> (lastContent ms = JStr [] \<and> isl (parse []))))"
  shows "fst (analyzeStructuredOutputStrategy parse messages structuredResponse s) =
     Inr \<lparr>strategy = UNKNOWN, structuredOutputWorked = (structuredResponse \<noteq> JUndefined),
          details = js ''Could not determine strategy'', parsedJson = None\<rparr>"
proof -
  have "\<not> hasToolCalls ms \<and>
      (lastContent ms = JUndefined \<or> (lastContent ms = JStr [] \<and> isl (parse [])))"
    using assms(3) by (auto simp: hasToolCalls_def lastContent_def lastAiMessage_def)
  then show ?thesis
    by (auto simp: analyze_messages [OF assms(1,2)] isl_def)
qed

theorem unknown_without_content_witness:
  "fst (analyzeStructuredOutputStrategy JSON_parse 0 (JObj [(js ''foo'', JNum 1)]) (trace_store [])) =
     Inr \<lparr>strategy = UNKNOWN, structuredOutputWorked = True,
          details = js ''Could not determine strategy'', parsedJson = None\<rparr>"
proof -
  have 1: "0 < fresh (trace_store [])"
    by (simp add: trace_store_def)
  have 2: "arrays (trace_store []) 0 = map Msg []"
    by (simp add: trace_store_def)
  have 3: "([]::message list) = [] \<or> (\<not> hasToolCalls [] \<and>
      (lastContent [] = JUndefined \<or> (lastContent [] = JStr [] \<and> isl (JSON_parse []))))"
    by simp
  show ?thesis
    using unknown_without_content [where parse = JSON_parse, OF 1 2 3, of "JObj [(js ''foo'', JNum 1)]"]
    by simp
qed

section \<open>Errors\<close>




section \<open>The classifier and the store\<close>

text \<open>
  C8: the record returned depends on the elements of the trace and on the structured
  response only: two calls in stores that agree on the trace return the same record,
  wherever the trace lies and whatever else the stores hold, and so does a second call
  made after the first.
\<close>

theorem classification_depends_on_arguments_only:
  assumes "messages < fresh s" and "messages' < fresh s'"
    and "arrays s messages = arrays s' messages'"
  shows "fst (analyzeStructuredOutputStrategy parse messages structuredResponse s) =
           fst (analyzeStructuredOutputStrategy parse messages' structuredResponse s')
     \<and> fst (analyzeStructuredOutputStrategy parse messages structuredResponse
               (snd (analyzeStructuredOutputStrategy parse messages structuredResponse s))) =
           fst (analyzeStructuredOutputStrategy parse messages structuredResponse s)"
proof
  show "fst (analyzeStructuredOutputStrategy parse messages structuredResponse s) =
        fst (analyzeStructuredOutputStrategy parse messages' structuredResponse s')"
    using assms by (rule analyze_reads_trace_only)
next
  let ?s1 = "snd (analyzeStructuredOutputStrategy parse messages structuredResponse s)"
  have "messages < fresh ?s1"
    using assms(1) analyze_frame(3) [OF assms(1), of parse structuredResponse] by simp
  moreover have "arrays ?s1 messages = arrays s messages"
    using assms(1) by (rule analyze_frame(2) [OF assms(1)])
  ultimately show "fst (analyzeStructuredOutputStrategy parse messages structuredResponse ?s1) =
        fst (analyzeStructuredOutputStrategy parse messages structuredResponse s)"
    using assms(1) by (intro analyze_reads_trace_only) simp_all
qed

theorem classification_depends_on_arguments_only_witness:
  "fst (analyzeStructuredOutputStrategy JSON_parse 0 JNull (trace_store (map Msg extracting_trace))) =
     fst (analyzeStructuredOutputStrategy JSON_parse 3 JNull (busy_store (map Msg extracting_trace)))
   \<and> fst (analyzeStructuredOutputStrategy JSON_parse 0 JNull
            (snd (analyzeStructuredOutputStrategy JSON_parse 0 JNull
                    (trace_store (map Msg extracting_trace))))) =
     fst (analyzeStructuredOutputStrategy JSON_parse 0 JNull (trace_store (map Msg extracting_trace)))"
proof -
  have 1: "0 < fresh (trace_store (map Msg extracting_trace))"
    by (simp add: trace_store_def)
  have 2: "3 < fresh (busy_store (map Msg extracting_trace))"
    by (simp add: busy_store_def)
  have 3: "arrays (trace_store (map Msg extracting_trace)) 0 =
           arrays (busy_store (map Msg extracting_trace)) 3"
    by (simp add: trace_store_def busy_store_def)
  show ?thesis
    by (rule classification_depends_on_arguments_only [OF 1 2 3])
qed

text \<open>
  C9: after the call the trace holds the same messages in the same order, and so does
  every array that existed before it; nothing is written to the console. The reversal
  happens in a copy.
\<close>

theorem classifier_leaves_inputs_unchanged:
  assumes "messages < fresh s"
  shows "arrays (snd (analyzeStructuredOutputStrategy parse messages structuredResponse s)) messages
           = arrays s messages
     \<and> (\<forall>a < fresh s.
           arrays (snd (analyzeStructuredOutputStrategy parse messages structuredResponse s)) a
             = arrays s a)
     \<and> console (snd (analyzeStructuredOutputStrategy parse messages structuredResponse s))
           = console s"
  using assms analyze_frame [OF assms] by simp

theorem classifier_leaves_inputs_unchanged_witness:
  "arrays (snd (analyzeStructuredOutputStrategy JSON_parse 3 JNull (busy_store (map Msg extracting_trace)))) 3
           = map Msg extracting_trace
     \<and> arrays (snd (analyzeStructuredOutputStrategy JSON_parse 3 JNull (busy_store (map Msg extracting_trace)))) 5
           = [Msg (HumanMessage (js ''another conversation''))]
     \<and> console (snd (analyzeStructuredOutputStrategy JSON_parse 3 JNull (busy_store (map Msg extracting_trace))))
           = [js ''earlier output'']"
proof -
  have 1: "3 < fresh (busy_store (map Msg extracting_trace))"
    by (simp add: busy_store_def)
  show ?thesis
    using classifier_leaves_inputs_unchanged [OF 1, of JSON_parse JNull]
    by (simp add: busy_store_def)
qed

text \<open>The reversed copy is a new array, at the second address the call allocates.\<close>

lemma reversed_copy_is_new:
  "arrays (snd (analyzeStructuredOutputStrategy JSON_parse 3 JNull (busy_store (map Msg extracting_trace)))) 10
     = rev (map Msg extracting_trace)"
  by (simp add: run_simps busy_store_def find_in_Msg extracting_trace_def message_simps js_def)

section \<open>Content that is not a string\<close>

text \<open>
  C10: when no tool call is detected and the content of the most recent assistant
  message is not a string (content blocks, say), the classification is \<open>UNKNOWN\<close>, the
  output worked exactly when the structured response is defined, and the record has
  no \<open>parsedJson\<close>; the parser plays no part, the record is the same for every \<open>parse\<close>.
\<close>

theorem unknown_for_structured_content:
  assumes "messages < fresh s" and "arrays s messages = map Msg ms"
    and "\<not> hasToolCalls ms"
    and "lastAiMessage ms = Some m" and "\<forall>text. content m \<noteq> JStr text"
  shows "fst (analyzeStructuredOutputStrategy parse messages structuredResponse s) =
     Inr \<lparr>strategy = UNKNOWN, structuredOutputWorked = (structuredResponse \<noteq> JUndefined),
          details = js ''Could not determine strategy'', parsedJson = None\<rparr>"
  using assms(3-)
  by (simp add: analyze_messages [OF assms(1,2)] lastContent_def split: jsvalue.splits)

theorem unknown_for_structured_content_witness:
  "fst (analyzeStructuredOutputStrategy JSON_parse 0 JUndefined
          (trace_store [Msg (HumanMessage (js ''Recommend a movie'')),
                        Msg (AIMessage (JArr [text_block (js ''{}'')]) [])])) =
     Inr \<lparr>strategy = UNKNOWN, structuredOutputWorked = False,
          details = js ''Could not determine strategy'', parsedJson = None\<rparr>"
proof -
  let ?h = "HumanMessage (js ''Recommend a movie'')"
  let ?m = "AIMessage (JArr [text_block (js ''{}'')]) []"
  have 1: "0 < fresh (trace_store [Msg ?h, Msg ?m])"
    by (simp add: trace_store_def)
  have 2: "arrays (trace_store [Msg ?h, Msg ?m]) 0 = map Msg [?h, ?m]"
    by (simp add: trace_store_def)
  have 3: "\<not> hasToolCalls [?h, ?m]"
    by (simp add: hasToolCalls_def message_simps)
  have 4: "lastAiMessage [?h, ?m] = Some ?m"
    by (simp add: lastAiMessage_def message_simps)
  have 5: "\<forall>text. content ?m \<noteq> JStr text"
    by (simp add: AIMessage_def)
  show ?thesis
    using unknown_for_structured_content [where parse = JSON_parse, OF 1 2 3 4 5, of JUndefined]
    by simp
qed

end
